theory Spec2Isabelle
  imports Complex_Main "HOL-Library.List_Lexorder" "HOL-Library.Char_ord"
begin

section \<open>The object exporter of io\_scene\_xray (obj/exp/main.py)\<close>

text \<open>
  The exporter serialises one Blender object hierarchy into a chunked container.  The
  functions of \<^verbatim>\<open>main.py\<close> are embedded one by one, under their own names.  What the
  module imports from elsewhere (the writers of \<^verbatim>\<open>xray_io\<close>, the chunk identifiers of
  \<^verbatim>\<open>fmt\<close>, the mesh, bone and motion encoders, \<^verbatim>\<open>utils\<close>, \<^verbatim>\<open>log\<close>, the host's
  \<^verbatim>\<open>bpy\<close> and \<^verbatim>\<open>mathutils\<close>) is either a parameter collected in the record
  \<open>env\<close> or a small definition whose comment says where it comes from.
\<close>

subsection \<open>Writers\<close>

text \<open>
  A \<^verbatim>\<open>PackedWriter\<close> is the sequence of values put into it, each tagged with the format
  it was put with: \<^verbatim>\<open>putf('H', v)\<close>, \<^verbatim>\<open>putf('I', v)\<close>, \<^verbatim>\<open>putf('f', v)\<close> and
  \<^verbatim>\<open>puts(s)\<close>.  A float is given by its value, a real.  A \<^verbatim>\<open>ChunkedWriter\<close> is the sequence of
  chunks put into it; a chunk's payload is a writer of either kind.  How \<^verbatim>\<open>xray_io\<close>
  lays these values out as bytes is outside the module: two outputs are compared as
  sequences of chunks and of values.
\<close>

datatype field = PutH int | PutI int | PutF real | PutS string

datatype chunk_id =
    VERSION | FLAGS | MESHES | SURFACES2 | BONES1 | USERDATA | LOD_REF | MOTIONS
  | PARTITIONS1 | MOTION_REFS | SMOTIONS3 | TRANSFORM | REVISION
  | Index nat

datatype writer = PackedWriter "field list" | ChunkedWriter "(chunk_id \<times> writer) list"

type_synonym chunked_writer = "(chunk_id \<times> writer) list"

text \<open>The log of warnings: message and data of each \<^verbatim>\<open>log.warn(message, data=...)\<close>.\<close>

type_synonym log = "(string \<times> string) list"

text \<open>
  The state an export works on: the caller's chunked writer, which every section appends
  to, and the log.
\<close>

record state =
  chunks :: chunked_writer
  warnings :: log

text \<open>
  Modelled from the spec: \<^verbatim>\<open>ChunkedWriter.put\<close> of \<^verbatim>\<open>xray_io\<close> is not among the
  sources; by the spec it appends one chunk, the identifier with its payload, to the
  container.
\<close>

definition put :: "chunk_id \<Rightarrow> writer \<Rightarrow> state \<Rightarrow> state" where
  "put cid w s = s\<lparr>chunks := chunks s @ [(cid, w)]\<rparr>"

text \<open>
  Modelled from the spec: \<^verbatim>\<open>log.warn\<close> is not among the sources; by the spec the
  warning is recorded, once per call, and the export continues.
\<close>

definition warn :: "string \<Rightarrow> string \<Rightarrow> state \<Rightarrow> state" where
  "warn msg dat s = s\<lparr>warnings := warnings s @ [(msg, dat)]\<rparr>"

text \<open>
  The exceptions the module can raise by itself: an attribute read on \<^verbatim>\<open>None\<close>, an index
  out of range, a key that is missing.  A section either returns, leaving the state it
  built, or raises, leaving the state as it was when the exception started.
\<close>

datatype error = AttributeError | IndexError | KeyError

datatype result = Returned state | Raised error state

subsection \<open>The scene\<close>

record revision =
  owner :: string
  ctime :: int

text \<open>The \<^verbatim>\<open>xray\<close> property group of an object, as far as the exporter reads it.\<close>

record object_xray =
  flags :: int
  userdata :: string
  lodref :: string
  motions_collection :: "string list"
  motionrefs_collection :: "string list"
  motionrefs :: string
  revision :: revision

text \<open>Export options (\<^verbatim>\<open>context\<close>).\<close>

record exp_context =
  texname_from_path :: bool
  textures_folder :: string
  export_motions_opt :: bool
  soc_sgroups :: bool

text \<open>
  Textures and materials.  A material has the \<^verbatim>\<open>xray\<close> property group of
  \<^verbatim>\<open>props/material.py\<close> or lacks the attribute (\<^verbatim>\<open>hasattr\<close>); its texture slots are a
  sequence of slots, each present or \<^verbatim>\<open>None\<close>.
\<close>

record texture =
  tex_name :: string
  tex_filepath :: string

record texture_slot =
  uv_layer :: string

record material_xray =
  mat_flags :: int
  eshader :: string
  cshader :: string
  gamemtl :: string
  version :: int

record material =
  mat_name :: string
  mat_xray :: "material_xray option"
  active_texture :: "texture option"
  texture_slots :: "texture_slot option list"
  active_texture_index :: int

text \<open>
  An armature object, as far as the exporter reads it: \<^verbatim>\<open>data.bones\<close>,
  \<^verbatim>\<open>pose.bones\<close> and \<^verbatim>\<open>pose.bone_groups\<close>.  A reference to an armature object (a
  modifier's \<^verbatim>\<open>object\<close>, an element of the set \<^verbatim>\<open>armatures\<close>) is this value; two
  references are the same object when the values are equal, names being unique in a
  scene.
\<close>

record bone =
  bone_name :: string
  exportable :: bool

record bone_group =
  group_name :: string

record pose_bone =
  pb_name :: string
  pb_bone_group :: "bone_group option"

record arm_object =
  arm_name :: string
  bones :: "bone list"
  pose_bones :: "pose_bone list"
  bone_groups :: "bone_group list"

record modifier =
  mod_type :: string
  mod_object :: "arm_object option"

text \<open>
  \<^verbatim>\<open>mathutils.Matrix\<close>: the world matrix is 4x4, given by rows.  Its entries are
  32-bit floats, given by their values.  \<^verbatim>\<open>to_translation\<close> reads the last column;
  \<^verbatim>\<open>to_euler('YXZ')\<close> is a parameter.
\<close>

type_synonym vec3 = "real \<times> real \<times> real"
type_synonym vec4 = "real \<times> real \<times> real \<times> real"
type_synonym matrix = "vec4 \<times> vec4 \<times> vec4 \<times> vec4"

definition Identity4 :: matrix where
  "Identity4 = ((1, 0, 0, 0), (0, 1, 0, 0), (0, 0, 1, 0), (0, 0, 0, 1))"

text \<open>
  \<^verbatim>\<open>root_matrix != mathutils.Matrix.Identity(4)\<close>.  The comparison of \<^verbatim>\<open>mathutils\<close> is
  not equality of the values: it goes through the sixteen entries and takes two 32-bit
  floats as equal when they are at most one step apart in the ordered sequence of the
  32-bit floats, where \<^verbatim>\<open>-0.0\<close> comes just before \<^verbatim>\<open>+0.0\<close>.  Against the identity only
  two cases arise.  The floats at most one step from 1 are \<^verbatim>\<open>1 - 2**-24\<close>, 1 and
  \<^verbatim>\<open>1 + 2**-23\<close>.  The floats at most one step from \<^verbatim>\<open>+0.0\<close> are \<^verbatim>\<open>-0.0\<close> and
  \<^verbatim>\<open>+0.0\<close>, both of value 0, and the least positive float \<^verbatim>\<open>2**-149\<close>.  The matrices
  differ when some entry is further than that from the identity's.
\<close>

definition within_step_of_1 :: "real \<Rightarrow> bool" where
  "within_step_of_1 x = (x = 1 - 1 / 2 ^ 24 \<or> x = 1 \<or> x = 1 + 1 / 2 ^ 23)"

definition within_step_of_0 :: "real \<Rightarrow> bool" where
  "within_step_of_0 x = (x = 0 \<or> x = 1 / 2 ^ 149)"

fun matrix_ne_Identity4 :: "matrix \<Rightarrow> bool" where
  "matrix_ne_Identity4 ((m00, m01, m02, m03), (m10, m11, m12, m13),
                        (m20, m21, m22, m23), (m30, m31, m32, m33)) =
     (\<not> (within_step_of_1 m00 \<and> within_step_of_0 m01 \<and> within_step_of_0 m02 \<and> within_step_of_0 m03 \<and>
         within_step_of_0 m10 \<and> within_step_of_1 m11 \<and> within_step_of_0 m12 \<and> within_step_of_0 m13 \<and>
         within_step_of_0 m20 \<and> within_step_of_0 m21 \<and> within_step_of_1 m22 \<and> within_step_of_0 m23 \<and>
         within_step_of_0 m30 \<and> within_step_of_0 m31 \<and> within_step_of_0 m32 \<and> within_step_of_1 m33))"

fun to_translation :: "matrix \<Rightarrow> vec3" where
  "to_translation ((_, _, _, tx), (_, _, _, ty), (_, _, _, tz), _) = (tx, ty, tz)"

text \<open>
  A scene object: its \<^verbatim>\<open>xray\<close> property group (absent when the object has no such
  attribute), its world matrix, what its \<^verbatim>\<open>type\<close> is together with the data read for
  that type, and its children in their stored order.
\<close>

datatype obj_kind =
    MESH (modifiers: "modifier list") (data_materials: "material option list")
  | ARMATURE arm_object
  | OTHER

datatype bpy_object =
  Object (xray: "object_xray option") (matrix_world: matrix) (kind: obj_kind)
    (children: "bpy_object list")

record action =
  action_name :: string

subsection \<open>What the module imports\<close>

record host =
  node :: string
  getuser :: string
  time_now :: int

text \<open>
  \<^item> \<open>is_helper_object\<close>: \<^verbatim>\<open>utils.is_helper_object\<close>;
  \<^item> \<open>export_mesh\<close>: \<^verbatim>\<open>mesh.export_mesh\<close>, giving what it writes into the fresh mesh
    writer and the material names it returns;
  \<^item> \<open>bone_chunks\<close>: what \<^verbatim>\<open>bone.export_bone\<close> writes for one bone;
  \<^item> \<open>gen_texture_name\<close>: \<^verbatim>\<open>utils.gen_texture_name\<close>;
  \<^item> \<open>xray_motions\<close>: what \<^verbatim>\<open>xray_motions.export_motions\<close> writes into the fresh
    writer;
  \<^item> \<open>actions\<close>: \<^verbatim>\<open>bpy.data.actions\<close>;
  \<^item> \<open>to_euler_YXZ\<close>: \<^verbatim>\<open>Matrix.to_euler('YXZ')\<close>;
  \<^item> \<open>armature_slot\<close>, \<open>material_slot\<close>: where the host's hash of an object places
    it in a \<^verbatim>\<open>set\<close> (see below);
  \<^item> \<open>platform\<close>: host name, user name and clock.
\<close>

record env =
  is_helper_object :: "bpy_object \<Rightarrow> bool"
  export_mesh :: "bpy_object \<Rightarrow> bpy_object \<Rightarrow> exp_context \<Rightarrow> chunked_writer \<times> string set"
  bone_chunks :: "arm_object \<Rightarrow> bpy_object \<Rightarrow> bone \<Rightarrow> exp_context \<Rightarrow> chunked_writer"
  gen_texture_name :: "texture \<Rightarrow> string \<Rightarrow> string"
  xray_motions :: "action list \<Rightarrow> arm_object \<Rightarrow> field list"
  actions :: "string \<Rightarrow> action option"
  to_euler_YXZ :: "matrix \<Rightarrow> vec3"
  armature_slot :: "arm_object \<Rightarrow> nat"
  material_slot :: "material \<Rightarrow> nat"
  platform :: host

subsection \<open>Python containers and strings\<close>

text \<open>
  A Python \<^verbatim>\<open>set\<close> of scene objects is kept as the list of its elements, without
  repetition, in the order they were first added.  Iterating a set does not follow
  that order: it follows the hash table, where an object sits according to its hash,
  for a scene object its address.  Iteration is therefore the stable sort of the elements
  by a slot number that the host supplies: it yields every element once, in an order that
  the order of insertion does not determine, and in the same order each time an unchanged
  set is iterated.
\<close>

type_synonym 'a py_set = "'a list"

definition set_add :: "'a \<Rightarrow> 'a py_set \<Rightarrow> 'a py_set" where
  "set_add x xs = (if x \<in> set xs then xs else xs @ [x])"

definition iterate :: "('a \<Rightarrow> nat) \<Rightarrow> 'a py_set \<Rightarrow> 'a list" where
  "iterate slot xs = sort_key slot xs"

text \<open>\<^verbatim>\<open>xs[i]\<close> with an integer index: negative indices count from the end.\<close>

definition getitem :: "'a list \<Rightarrow> int \<Rightarrow> 'a option" where
  "getitem xs i =
     (if 0 \<le> i \<and> i < int (length xs) then Some (xs ! nat i)
      else if i < 0 \<and> - int (length xs) \<le> i then Some (xs ! nat (int (length xs) + i))
      else None)"

text \<open>\<^verbatim>\<open>sep.join(parts)\<close>.\<close>

fun join :: "string \<Rightarrow> string list \<Rightarrow> string" where
  "join sep [] = []"
| "join sep [x] = x"
| "join sep (x # y # ys) = x @ sep @ join sep (y # ys)"

text \<open>
  \<^verbatim>\<open>str.splitlines()\<close>, for strings of code points below 256: a line ends at
  \<^verbatim>\<open>\r\n\<close>, or at one of \<^verbatim>\<open>\n \r \v \f \x1c \x1d \x1e \x85\<close>; the line ends are dropped
  and a trailing line end does not open an empty last line.
\<close>

definition is_line_boundary :: "char \<Rightarrow> bool" where
  "is_line_boundary c =
     (c \<in> set [CHR 0x0A, CHR 0x0D, CHR 0x0B, CHR 0x0C, CHR 0x1C, CHR 0x1D, CHR 0x1E, CHR 0x85])"

fun splitlines_from :: "string \<Rightarrow> string \<Rightarrow> string list" where
  "splitlines_from cur [] = (if cur = [] then [] else [cur])"
| "splitlines_from cur [c] =
     (if is_line_boundary c then [cur] else [cur @ [c]])"
| "splitlines_from cur (c # d # cs) =
     (if c = CHR 0x0D \<and> d = CHR 0x0A then cur # splitlines_from [] cs
      else if is_line_boundary c then cur # splitlines_from [] (d # cs)
      else splitlines_from (cur @ [c]) (d # cs))"

definition splitlines :: "string \<Rightarrow> string list" where
  "splitlines s = splitlines_from [] s"

subsection \<open>pw\_v3f, version, flags\<close>

definition pw_v3f :: "vec3 \<Rightarrow> vec3" where
  "pw_v3f vec = (case vec of (v0, v1, v2) \<Rightarrow> (v0, v2, v1))"

definition export_version :: "state \<Rightarrow> state" where
  "export_version s = put VERSION (PackedWriter [PutH 0x10]) s"

definition export_flags :: "state \<Rightarrow> object_xray option \<Rightarrow> state" where
  "export_flags s xr =
     put FLAGS (PackedWriter [PutI (case xr of Some x \<Rightarrow> flags x | None \<Rightarrow> 0)]) s"

subsection \<open>Revision\<close>

text \<open>
  \<^verbatim>\<open>platform.node()\<close>, \<^verbatim>\<open>getpass.getuser()\<close> and \<^verbatim>\<open>int(time.time())\<close> are read
  from the host at each export; here they are arguments.
\<close>

definition curruser :: "host \<Rightarrow> string" where
  "curruser h = [CHR 0x5C, CHR 0x5C] @ node h @ [CHR 0x5C] @ getuser h"

definition revision_fields :: "host \<Rightarrow> revision \<Rightarrow> field list" where
  "revision_fields h r =
     (if owner r = [] \<or> owner r = curruser h
      then [PutS (curruser h), PutI (if ctime r \<noteq> 0 then ctime r else time_now h),
            PutS [], PutI 0]
      else [PutS (owner r), PutI (ctime r), PutS (curruser h), PutI (time_now h)])"

definition export_revision :: "host \<Rightarrow> state \<Rightarrow> object_xray option \<Rightarrow> result" where
  "export_revision h s xr =
     (case xr of
        None \<Rightarrow> Raised AttributeError s
      | Some x \<Rightarrow> Returned (put REVISION (PackedWriter (revision_fields h (revision x))) s))"

subsection \<open>The walk: export\_meshes\<close>

text \<open>
  Modelled from the spec: \<^verbatim>\<open>utils.is_exportable_bone\<close> is not among the sources; the
  spec gives a bone an exportability flag, which the predicate reads.
\<close>

definition is_exportable_bone :: "bone \<Rightarrow> bool" where
  "is_exportable_bone b = exportable b"

text \<open>
  Modelled from the spec: \<^verbatim>\<open>bone.export_bone\<close> is not among the sources; by the spec
  the encoder, called for one bone, accumulates into the bone-writer list and into the
  name-to-index bone map.  What it writes for the bone is the parameter
  \<open>bone_chunks\<close>.
\<close>

definition export_bone ::
  "env \<Rightarrow> arm_object \<Rightarrow> bpy_object \<Rightarrow> bone \<Rightarrow> writer list \<Rightarrow> (string \<rightharpoonup> nat) \<Rightarrow> exp_context
     \<Rightarrow> writer list \<times> (string \<rightharpoonup> nat)" where
  "export_bone E bpy_arm_obj bpy_root b bone_writers bonemap ctx =
     (bone_writers @ [ChunkedWriter (bone_chunks E bpy_arm_obj bpy_root b ctx)],
      bonemap(bone_name b \<mapsto> length bone_writers))"

text \<open>The three collections \<^verbatim>\<open>scan_r\<close> fills.\<close>

record walk =
  mesh_writers :: "writer list"
  armatures :: "arm_object py_set"
  materials :: "material py_set"

definition add_modifier_armature :: "modifier \<Rightarrow> arm_object py_set \<Rightarrow> arm_object py_set" where
  "add_modifier_armature md arms =
     (case mod_object md of
        Some ob \<Rightarrow> if mod_type md = ''ARMATURE'' then set_add ob arms else arms
      | None \<Rightarrow> arms)"

definition add_used_material :: "string set \<Rightarrow> material option \<Rightarrow> material py_set \<Rightarrow> material py_set" where
  "add_used_material used_material_names mo mats =
     (case mo of
        None \<Rightarrow> mats
      | Some m \<Rightarrow> if mat_name m \<in> used_material_names then set_add m mats else mats)"

text \<open>The body of \<^verbatim>\<open>scan_r\<close> for one object that is not a helper, before its children.\<close>

definition scan_object :: "env \<Rightarrow> bpy_object \<Rightarrow> exp_context \<Rightarrow> bpy_object \<Rightarrow> walk \<Rightarrow> walk" where
  "scan_object E bpy_root ctx bpy_obj w =
     (case kind bpy_obj of
        MESH mods mats \<Rightarrow>
          (case export_mesh E bpy_obj bpy_root ctx of
             (mesh_writer, used_material_names) \<Rightarrow>
               \<lparr>mesh_writers = mesh_writers w @ [ChunkedWriter mesh_writer],
                armatures = fold add_modifier_armature mods (armatures w),
                materials = fold (add_used_material used_material_names) mats (materials w)\<rparr>)
      | ARMATURE arm \<Rightarrow> w\<lparr>armatures := set_add arm (armatures w)\<rparr>
      | OTHER \<Rightarrow> w)"

fun scan_r :: "env \<Rightarrow> bpy_object \<Rightarrow> exp_context \<Rightarrow> bpy_object \<Rightarrow> walk \<Rightarrow> walk"
  and scan_children :: "env \<Rightarrow> bpy_object \<Rightarrow> exp_context \<Rightarrow> bpy_object list \<Rightarrow> walk \<Rightarrow> walk" where
  "scan_r E bpy_root ctx (Object xr m k cs) w =
     (if is_helper_object E (Object xr m k cs) then w
      else scan_children E bpy_root ctx cs (scan_object E bpy_root ctx (Object xr m k cs) w))"
| "scan_children E bpy_root ctx [] w = w"
| "scan_children E bpy_root ctx (child # cs) w =
     scan_children E bpy_root ctx cs (scan_r E bpy_root ctx child w)"

text \<open>The loop over one armature's bones, with its bone map, and the loop over the armatures.\<close>

fun export_arm_bones ::
  "env \<Rightarrow> arm_object \<Rightarrow> bpy_object \<Rightarrow> exp_context \<Rightarrow> bone list
     \<Rightarrow> writer list \<times> (string \<rightharpoonup> nat) \<Rightarrow> writer list \<times> (string \<rightharpoonup> nat)" where
  "export_arm_bones E bpy_arm_obj bpy_root ctx [] acc = acc"
| "export_arm_bones E bpy_arm_obj bpy_root ctx (b # bs) (bone_writers, bonemap) =
     (if \<not> is_exportable_bone b
      then export_arm_bones E bpy_arm_obj bpy_root ctx bs (bone_writers, bonemap)
      else export_arm_bones E bpy_arm_obj bpy_root ctx bs
             (export_bone E bpy_arm_obj bpy_root b bone_writers bonemap ctx))"

fun export_armatures ::
  "env \<Rightarrow> bpy_object \<Rightarrow> exp_context \<Rightarrow> arm_object list \<Rightarrow> writer list \<Rightarrow> writer list" where
  "export_armatures E bpy_root ctx [] bone_writers = bone_writers"
| "export_armatures E bpy_root ctx (bpy_arm_obj # arms) bone_writers =
     export_armatures E bpy_root ctx arms
       (fst (export_arm_bones E bpy_arm_obj bpy_root ctx (bones bpy_arm_obj)
               (bone_writers, Map.empty)))"

text \<open>Sub-chunks numbered from 0 in list order (\<^verbatim>\<open>idx = 0; ... put(idx, w); idx += 1\<close>).\<close>

definition indexed :: "writer list \<Rightarrow> chunked_writer" where
  "indexed ws = map (\<lambda>(idx, w). (Index idx, w)) (enumerate 0 ws)"

definition empty_walk :: walk where
  "empty_walk = \<lparr>mesh_writers = [], armatures = [], materials = []\<rparr>"

definition export_meshes ::
  "env \<Rightarrow> state \<Rightarrow> bpy_object \<Rightarrow> exp_context
     \<Rightarrow> (material py_set \<times> writer list \<times> arm_object option \<times> bpy_object) \<times> state" where
  "export_meshes E s bpy_obj ctx =
     (let bpy_root = bpy_obj;
          w = scan_r E bpy_root ctx bpy_obj empty_walk;
          bone_writers =
            export_armatures E bpy_root ctx (iterate (armature_slot E) (armatures w)) [];
          s' = put MESHES (ChunkedWriter (indexed (mesh_writers w))) s;
          arm_list = iterate (armature_slot E) (armatures w);
          some_arm = (case arm_list of [] \<Rightarrow> None | a # _ \<Rightarrow> Some a)
      in ((materials w, bone_writers, some_arm, bpy_root), s'))"

subsection \<open>Surfaces\<close>

text \<open>What the loop body of \<^verbatim>\<open>export_surfaces\<close> puts for one material.\<close>

definition surface_fields :: "env \<Rightarrow> exp_context \<Rightarrow> material \<Rightarrow> error + field list" where
  "surface_fields E ctx m =
     (let shaders =
            (case mat_xray m of
               Some x \<Rightarrow> [PutS (eshader x), PutS (cshader x), PutS (gamemtl x)]
             | None \<Rightarrow> [PutS [], PutS [], PutS []]);
          tx_name =
            (case active_texture m of
               Some t \<Rightarrow>
                 if texname_from_path ctx then gen_texture_name E t (textures_folder ctx)
                 else tex_name t
             | None \<Rightarrow> [])
      in case getitem (texture_slots m) (active_texture_index m) of
           None \<Rightarrow> Inl IndexError
         | Some slot \<Rightarrow>
             Inr ([PutS (mat_name m)] @ shaders @
                  [PutS tx_name,
                   PutS (case slot of Some sl \<Rightarrow> uv_layer sl | None \<Rightarrow> []),
                   PutI (case mat_xray m of Some x \<Rightarrow> mat_flags x | None \<Rightarrow> 0),
                   PutI 0x112, PutI 1]))"

fun surfaces_loop :: "env \<Rightarrow> exp_context \<Rightarrow> material list \<Rightarrow> field list \<Rightarrow> error + field list" where
  "surfaces_loop E ctx [] sfw = Inr sfw"
| "surfaces_loop E ctx (m # ms) sfw =
     (case surface_fields E ctx m of
        Inl e \<Rightarrow> Inl e
      | Inr fs \<Rightarrow> surfaces_loop E ctx ms (sfw @ fs))"

definition export_surfaces :: "env \<Rightarrow> state \<Rightarrow> exp_context \<Rightarrow> material py_set \<Rightarrow> result" where
  "export_surfaces E s ctx mats =
     (case surfaces_loop E ctx (iterate (material_slot E) mats) [PutI (int (length mats))] of
        Inl e \<Rightarrow> Raised e s
      | Inr sfw \<Rightarrow> Returned (put SURFACES2 (PackedWriter sfw) s))"

subsection \<open>Bones, user data, LOD reference\<close>

definition export_bones :: "state \<Rightarrow> writer list \<Rightarrow> state" where
  "export_bones s bone_writers =
     (if bone_writers \<noteq> [] then put BONES1 (ChunkedWriter (indexed bone_writers)) s else s)"

definition export_user_data :: "state \<Rightarrow> object_xray option \<Rightarrow> result" where
  "export_user_data s xr =
     (case xr of
        None \<Rightarrow> Raised AttributeError s
      | Some x \<Rightarrow>
          if userdata x \<noteq> []
          then Returned (put USERDATA
                 (PackedWriter [PutS (join [CHR 0x0D, CHR 0x0A] (splitlines (userdata x)))]) s)
          else Returned s)"

definition export_loddef :: "state \<Rightarrow> object_xray option \<Rightarrow> result" where
  "export_loddef s xr =
     (case xr of
        None \<Rightarrow> Raised AttributeError s
      | Some x \<Rightarrow>
          if lodref x \<noteq> [] then Returned (put LOD_REF (PackedWriter [PutS (lodref x)]) s)
          else Returned s)"

subsection \<open>Motions\<close>

text \<open>
  The names of the motion collection go through a set, a list and \<^verbatim>\<open>sort()\<close>: the
  result is the sorted list of the distinct names, whatever order the set gave.  Each
  name is then looked up in \<^verbatim>\<open>bpy.data.actions\<close>; a missing name raises.
\<close>

definition export_motions ::
  "env \<Rightarrow> state \<Rightarrow> arm_object option \<Rightarrow> exp_context \<Rightarrow> bpy_object \<Rightarrow> result" where
  "export_motions E s some_arm ctx bpy_obj =
     (case some_arm of
        None \<Rightarrow> Returned s
      | Some arm \<Rightarrow>
          if \<not> export_motions_opt ctx then Returned s
          else (case xray bpy_obj of
                  None \<Rightarrow> Raised AttributeError s
                | Some x \<Rightarrow>
                    (case those (map (actions E) (sort (remdups (motions_collection x)))) of
                       None \<Rightarrow> Raised KeyError s
                     | Some acts \<Rightarrow>
                         if xray_motions E acts arm \<noteq> []
                         then Returned (put MOTIONS (PackedWriter (xray_motions E acts arm)) s)
                         else Returned s)))"

subsection \<open>Partitions\<close>

text \<open>
  The pose bones whose data bone (\<^verbatim>\<open>data.bones[name]\<close>, a lookup that raises when the
  name is missing) is exportable.
\<close>

fun exportable_pose_bones :: "bone list \<Rightarrow> pose_bone list \<Rightarrow> pose_bone list option" where
  "exportable_pose_bones bs [] = Some []"
| "exportable_pose_bones bs (pb # pbs) =
     (case find (\<lambda>b. bone_name b = pb_name pb) bs of
        None \<Rightarrow> None
      | Some b \<Rightarrow>
          (case exportable_pose_bones bs pbs of
             None \<Rightarrow> None
           | Some rest \<Rightarrow> Some (if is_exportable_bone b then pb # rest else rest)))"

definition non_empty_groups :: "arm_object \<Rightarrow> pose_bone list \<Rightarrow> (string \<times> string list) list" where
  "non_empty_groups arm exportable_bones =
     filter (\<lambda>g. snd g \<noteq> [])
       (map (\<lambda>g. (group_name g,
                   map pb_name (filter (\<lambda>pb. pb_bone_group pb = Some g) exportable_bones)))
            (bone_groups arm))"

definition partition_fields :: "(string \<times> string list) list \<Rightarrow> field list" where
  "partition_fields groups =
     PutI (int (length groups)) #
     concat (map (\<lambda>(name, bs). PutS name # PutI (int (length bs)) # map PutS bs) groups)"

definition export_partitions :: "state \<Rightarrow> arm_object option \<Rightarrow> result" where
  "export_partitions s some_arm =
     (case some_arm of
        None \<Rightarrow> Returned s
      | Some arm \<Rightarrow>
          if bone_groups arm = [] then Returned s
          else (case exportable_pose_bones (bones arm) (pose_bones arm) of
                  None \<Rightarrow> Raised KeyError s
                | Some exportable_bones \<Rightarrow>
                    if non_empty_groups arm exportable_bones \<noteq> []
                    then Returned (put PARTITIONS1
                           (PackedWriter (partition_fields (non_empty_groups arm exportable_bones))) s)
                    else Returned s))"

subsection \<open>Motion references\<close>

definition export_motion_refs :: "state \<Rightarrow> object_xray option \<Rightarrow> exp_context \<Rightarrow> result" where
  "export_motion_refs s xr ctx =
     (case xr of
        None \<Rightarrow> Raised AttributeError s
      | Some x \<Rightarrow>
          if motionrefs_collection x \<noteq> [] then
            (let s1 = (if motionrefs x \<noteq> []
                       then warn ''MotionRefs: skipped legacy data'' (motionrefs x) s else s)
             in if soc_sgroups ctx
                then Returned (put MOTION_REFS
                       (PackedWriter [PutS (join '','' (motionrefs_collection x))]) s1)
                else Returned (put SMOTIONS3
                       (PackedWriter (PutI (int (length (motionrefs_collection x))) #
                                      map PutS (motionrefs_collection x))) s1))
          else if motionrefs x \<noteq> []
          then Returned (put MOTION_REFS (PackedWriter [PutS (motionrefs x)]) s)
          else Returned s)"

subsection \<open>Transform\<close>

definition transform_fields :: "env \<Rightarrow> matrix \<Rightarrow> field list" where
  "transform_fields E root_matrix =
     (case pw_v3f (to_translation root_matrix) of
        (a, b, c) \<Rightarrow>
          (case pw_v3f (to_euler_YXZ E root_matrix) of
             (d, e, f) \<Rightarrow> [PutF a, PutF b, PutF c, PutF d, PutF e, PutF f]))"

definition export_transform :: "env \<Rightarrow> state \<Rightarrow> bpy_object \<Rightarrow> state" where
  "export_transform E s bpy_root =
     (if matrix_ne_Identity4 (matrix_world bpy_root)
      then put TRANSFORM (PackedWriter (transform_fields E (matrix_world bpy_root))) s
      else s)"

subsection \<open>export\_main\<close>

text \<open>Statements in sequence: an exception ends the export where it is raised.\<close>

definition and_then :: "result \<Rightarrow> (state \<Rightarrow> result) \<Rightarrow> result" where
  "and_then r f = (case r of Returned s \<Rightarrow> f s | Raised e s \<Rightarrow> Raised e s)"

definition export_main :: "env \<Rightarrow> bpy_object \<Rightarrow> state \<Rightarrow> exp_context \<Rightarrow> result" where
  "export_main E bpy_obj s ctx =
     (let xr = xray bpy_obj;
          s1 = export_version s;
          s2 = export_flags s1 xr
      in case export_meshes E s2 bpy_obj ctx of
           ((mats, bone_writers, some_arm, bpy_root), s3) \<Rightarrow>
             and_then (export_surfaces E s3 ctx mats) (\<lambda>s4.
             and_then (export_user_data (export_bones s4 bone_writers) xr) (\<lambda>s6.
             and_then (export_loddef s6 xr) (\<lambda>s7.
             and_then (export_motions E s7 some_arm ctx bpy_obj) (\<lambda>s8.
             and_then (export_partitions s8 some_arm) (\<lambda>s9.
             and_then (export_motion_refs s9 xr ctx) (\<lambda>s10.
             export_revision (platform E) (export_transform E s10 bpy_root) xr)))))))"

subsection \<open>What the walk visits\<close>

text \<open>
  The objects \<^verbatim>\<open>scan_r\<close> processes, in the order of the walk: depth first, an object
  before its children, the children in their stored order, nothing at or below a helper
  object.
\<close>

fun visited :: "env \<Rightarrow> bpy_object \<Rightarrow> bpy_object list"
  and visited_children :: "env \<Rightarrow> bpy_object list \<Rightarrow> bpy_object list" where
  "visited E (Object xr m k cs) =
     (if is_helper_object E (Object xr m k cs) then []
      else Object xr m k cs # visited_children E cs)"
| "visited_children E [] = []"
| "visited_children E (child # cs) = visited E child @ visited_children E cs"

text \<open>
  A material is used by a visited object when the object is a mesh, the material sits in
  one of its material slots, and the material's name is among the names the mesh encoder
  returned for that mesh.
\<close>

definition used_material :: "env \<Rightarrow> bpy_object \<Rightarrow> exp_context \<Rightarrow> bpy_object \<Rightarrow> material \<Rightarrow> bool" where
  "used_material E bpy_root ctx ob m =
     (case kind ob of
        MESH mods mats \<Rightarrow> Some m \<in> set mats \<and> mat_name m \<in> snd (export_mesh E ob bpy_root ctx)
      | ARMATURE arm \<Rightarrow> False
      | OTHER \<Rightarrow> False)"

text \<open>
  The armatures one visited object contributes, in the order the walk meets them: the
  targets of a mesh's armature modifiers, or the object itself when it is an armature.
\<close>

definition modifier_armatures :: "modifier list \<Rightarrow> arm_object list" where
  "modifier_armatures mods =
     concat (map (\<lambda>md. case mod_object md of
                          Some ob \<Rightarrow> if mod_type md = ''ARMATURE'' then [ob] else []
                        | None \<Rightarrow> []) mods)"

definition encountered_armatures :: "bpy_object \<Rightarrow> arm_object list" where
  "encountered_armatures ob =
     (case kind ob of
        MESH mods mats \<Rightarrow> modifier_armatures mods
      | ARMATURE arm \<Rightarrow> [arm]
      | OTHER \<Rightarrow> [])"

text \<open>
  An object hierarchy without meshes and armatures: every object the walk visits is of
  another type.
\<close>

fun static_object :: "env \<Rightarrow> bpy_object \<Rightarrow> bool"
  and static_children :: "env \<Rightarrow> bpy_object list \<Rightarrow> bool" where
  "static_object E (Object xr m k cs) =
     (is_helper_object E (Object xr m k cs) \<or> (k = OTHER \<and> static_children E cs))"
| "static_children E [] = True"
| "static_children E (child # cs) = (static_object E child \<and> static_children E cs)"

subsection \<open>Example scenes\<close>

definition ex_platform :: host where
  "ex_platform = \<lparr>node = ''pc'', getuser = ''u'', time_now = 100\<rparr>"

definition ex_env :: env where
  "ex_env =
     \<lparr>is_helper_object = (\<lambda>_. False),
      export_mesh = (\<lambda>_ _ _. ([], {''red'', ''blue''})),
      bone_chunks = (\<lambda>_ _ b _. [(Index 0, PackedWriter [PutS (bone_name b)])]),
      gen_texture_name = (\<lambda>t folder. folder @ tex_filepath t),
      xray_motions = (\<lambda>acts _. map (\<lambda>a. PutS (action_name a)) acts),
      actions = (\<lambda>n. Some \<lparr>action_name = n\<rparr>),
      to_euler_YXZ = (\<lambda>_. (0, 0, 0)),
      armature_slot = (\<lambda>_. 0),
      material_slot = (\<lambda>_. 0),
      platform = ex_platform\<rparr>"

definition ex_ctx :: exp_context where
  "ex_ctx = \<lparr>texname_from_path = False, textures_folder = [], export_motions_opt = True,
              soc_sgroups = False\<rparr>"

definition ex_state :: state where
  "ex_state = \<lparr>chunks = [], warnings = []\<rparr>"

definition ex_xray :: object_xray where
  "ex_xray = \<lparr>flags = 1, userdata = [], lodref = [], motions_collection = [],
               motionrefs_collection = [], motionrefs = [],
               revision = \<lparr>owner = [], ctime = 0\<rparr>\<rparr>"

text \<open>
  Three materials without an active texture.  The active slot of \<open>red\<close> exists and
  names a UV layer, but holds no texture; the active slot of the others is empty.
\<close>

definition red :: material where
  "red = \<lparr>mat_name = ''red'', mat_xray = None, active_texture = None,
           texture_slots = [Some \<lparr>uv_layer = ''UVMap''\<rparr>], active_texture_index = 0\<rparr>"

definition blue :: material where
  "blue = \<lparr>mat_name = ''blue'', mat_xray = None, active_texture = None,
            texture_slots = [None], active_texture_index = 0\<rparr>"

definition green :: material where
  "green = \<lparr>mat_name = ''green'', mat_xray = None, active_texture = None,
             texture_slots = [None], active_texture_index = 0\<rparr>"

text \<open>A mesh with four material slots; its faces use \<open>red\<close> and \<open>blue\<close> only.\<close>

definition ex_mesh :: bpy_object where
  "ex_mesh = Object (Some ex_xray) Identity4 (MESH [] [Some red, None, Some blue, Some green]) []"

text \<open>
  Two armatures.  The first has a bone that is not exportable, in the same bone group as
  one that is; the second has no bones and no groups.
\<close>

definition arm1 :: arm_object where
  "arm1 = \<lparr>arm_name = ''arm1'',
            bones = [\<lparr>bone_name = ''root'', exportable = True\<rparr>,
                     \<lparr>bone_name = ''ik'', exportable = False\<rparr>],
            pose_bones = [\<lparr>pb_name = ''root'', pb_bone_group = Some \<lparr>group_name = ''body''\<rparr>\<rparr>,
                          \<lparr>pb_name = ''ik'', pb_bone_group = Some \<lparr>group_name = ''body''\<rparr>\<rparr>],
            bone_groups = [\<lparr>group_name = ''body''\<rparr>]\<rparr>"

definition arm2 :: arm_object where
  "arm2 = \<lparr>arm_name = ''arm2'', bones = [], pose_bones = [], bone_groups = []\<rparr>"

definition ex_two_arms :: bpy_object where
  "ex_two_arms =
     Object (Some ex_xray) Identity4 OTHER
       [Object None Identity4 (ARMATURE arm1) [], Object None Identity4 (ARMATURE arm2) []]"

definition ex_empty :: bpy_object where
  "ex_empty = Object (Some ex_xray) Identity4 OTHER []"

definition ex_moved :: bpy_object where
  "ex_moved = Object None ((1, 0, 0, 5), (0, 1, 0, 6), (0, 0, 1, 7), (0, 0, 0, 1)) OTHER []"

text \<open>
  An object whose world matrix is the identity but for its first entry, which is the
  32-bit float that follows 1.
\<close>

definition ex_one_step :: bpy_object where
  "ex_one_step =
     Object None ((1 + 1 / 2 ^ 23, 0, 0, 0), (0, 1, 0, 0), (0, 0, 1, 0), (0, 0, 0, 1)) OTHER []"

definition ex_no_xray :: bpy_object where
  "ex_no_xray = Object None Identity4 OTHER []"

text \<open>A mesh skinned to \<open>arm1\<close> that uses the material \<open>red\<close>.\<close>

definition ex_skinned :: bpy_object where
  "ex_skinned =
     Object (Some ex_xray) Identity4
       (MESH [\<lparr>mod_type = ''ARMATURE'', mod_object = Some arm1\<rparr>] [Some red]) []"

text \<open>Hash orders that differ from the order of insertion.\<close>

definition red_last :: "material \<Rightarrow> nat" where
  "red_last m = (if mat_name m = ''red'' then 1 else 0)"

definition arm1_last :: "arm_object \<Rightarrow> nat" where
  "arm1_last a = (if arm_name a = ''arm1'' then 1 else 0)"

section \<open>Properties\<close>

subsection \<open>Evaluation and basic facts\<close>

lemmas ex_defs = ex_env_def ex_ctx_def ex_state_def ex_xray_def red_def blue_def green_def
  ex_mesh_def arm1_def arm2_def ex_two_arms_def ex_empty_def ex_platform_def ex_moved_def
  ex_no_xray_def ex_skinned_def red_last_def arm1_last_def ex_one_step_def

lemmas run_defs = export_main_def export_version_def export_flags_def export_meshes_def
  export_surfaces_def export_bones_def export_user_data_def export_loddef_def export_motions_def
  export_partitions_def export_motion_refs_def export_transform_def export_revision_def
  and_then_def put_def warn_def empty_walk_def scan_object_def iterate_def indexed_def
  surface_fields_def getitem_def set_add_def add_used_material_def add_modifier_armature_def
  revision_fields_def curruser_def is_exportable_bone_def export_bone_def Identity4_def
  non_empty_groups_def partition_fields_def enumerate_eq_zip transform_fields_def pw_v3f_def
  within_step_of_1_def within_step_of_0_def

lemma walk_empty:
  "materials empty_walk = []" "armatures empty_walk = []" "mesh_writers empty_walk = []"
  by (simp_all add: empty_walk_def)

lemma matrix_ne_Identity4_Identity4: "\<not> matrix_ne_Identity4 Identity4"
  by (simp add: Identity4_def within_step_of_1_def within_step_of_0_def)

lemma matrix_ne_Identity4_differs: "matrix_ne_Identity4 m \<Longrightarrow> m \<noteq> Identity4"
  using matrix_ne_Identity4_Identity4 by auto

lemma set_set_add: "set (set_add x xs) = insert x (set xs)"
  by (auto simp: set_add_def)

lemma distinct_set_add: "distinct xs \<Longrightarrow> distinct (set_add x xs)"
  by (simp add: set_add_def)

lemma set_iterate: "set (iterate f xs) = set xs"
  by (simp add: iterate_def)

lemma iterate_short: "length xs \<le> 1 \<Longrightarrow> iterate f xs = xs"
  by (cases xs) (simp_all add: iterate_def)

subsection \<open>The material set of the walk\<close>

lemma set_fold_add_used_material:
  "set (fold (add_used_material U) mats acc) =
     set acc \<union> {m. Some m \<in> set mats \<and> mat_name m \<in> U}"
  by (induction mats arbitrary: acc)
     (auto simp: add_used_material_def set_set_add split: option.splits)

lemma distinct_fold_add_used_material:
  "distinct acc \<Longrightarrow> distinct (fold (add_used_material U) mats acc)"
  by (induction mats arbitrary: acc)
     (auto simp: add_used_material_def distinct_set_add split: option.splits)

lemma materials_scan_object:
  "set (materials (scan_object E r ctx ob w)) =
     set (materials w) \<union> {m. used_material E r ctx ob m}"
  by (cases "kind ob")
     (auto simp: scan_object_def used_material_def set_fold_add_used_material split: prod.splits)

lemma distinct_materials_scan_object:
  "distinct (materials w) \<Longrightarrow> distinct (materials (scan_object E r ctx ob w))"
  by (cases "kind ob")
     (auto simp: scan_object_def distinct_fold_add_used_material split: prod.splits)

lemma materials_scan:
  "set (materials (scan_r E r ctx ob w)) =
     set (materials w) \<union> {m. \<exists>v \<in> set (visited E ob). used_material E r ctx v m}"
  "set (materials (scan_children E r ctx obs w)) =
     set (materials w) \<union> {m. \<exists>v \<in> set (visited_children E obs). used_material E r ctx v m}"
  by (induction E r ctx ob w and E r ctx obs w rule: scan_r_scan_children.induct)
     (auto simp: materials_scan_object)

lemma distinct_materials_scan:
  "distinct (materials w) \<Longrightarrow> distinct (materials (scan_r E r ctx ob w))"
  "distinct (materials w) \<Longrightarrow> distinct (materials (scan_children E r ctx obs w))"
  by (induction E r ctx ob w and E r ctx obs w rule: scan_r_scan_children.induct)
     (auto simp: distinct_materials_scan_object)

lemma scan_static:
  "static_object E ob \<Longrightarrow> scan_r E r ctx ob w = w"
  "static_children E obs \<Longrightarrow> scan_children E r ctx obs w = w"
  by (induction E r ctx ob w and E r ctx obs w rule: scan_r_scan_children.induct)
     (auto simp: scan_object_def)

subsection \<open>The armature set of the walk\<close>

lemma fold_add_modifier_armature:
  "fold add_modifier_armature mods acc = fold set_add (modifier_armatures mods) acc"
  by (induction mods arbitrary: acc)
     (auto simp: add_modifier_armature_def modifier_armatures_def split: option.splits)

lemma armatures_scan_object:
  "armatures (scan_object E r ctx ob w) = fold set_add (encountered_armatures ob) (armatures w)"
  by (cases "kind ob")
     (auto simp: scan_object_def encountered_armatures_def fold_add_modifier_armature
           split: prod.splits)

lemma armatures_scan:
  "armatures (scan_r E r ctx ob w) =
     fold set_add (concat (map encountered_armatures (visited E ob))) (armatures w)"
  "armatures (scan_children E r ctx obs w) =
     fold set_add (concat (map encountered_armatures (visited_children E obs))) (armatures w)"
  by (induction E r ctx ob w and E r ctx obs w rule: scan_r_scan_children.induct)
     (auto simp: armatures_scan_object)

lemma fold_set_add_nonempty:
  "acc \<noteq> [] \<Longrightarrow> fold set_add xs acc \<noteq> [] \<and> hd (fold set_add xs acc) = hd acc"
  by (induction xs arbitrary: acc) (auto simp: set_add_def)

lemma hd_fold_set_add:
  "xs \<noteq> [] \<Longrightarrow> fold set_add xs [] \<noteq> [] \<and> hd (fold set_add xs []) = hd xs"
  by (cases xs) (auto simp: set_add_def fold_set_add_nonempty)

lemma fold_set_add_Nil: "fold set_add xs [] = [] \<longleftrightarrow> xs = []"
  by (metis hd_fold_set_add fold_simps(1))

lemma hd_sort_key_min:
  assumes "xs \<noteq> []"
  shows "hd (sort_key f xs) \<in> set xs \<and> (\<forall>b \<in> set xs. f (hd (sort_key f xs)) \<le> f b)"
proof -
  have s: "sorted (map f (sort_key f xs))" by simp
  have "sort_key f xs \<noteq> []" using assms by (metis length_sort length_0_conv)
  then obtain a rest where ar: "sort_key f xs = a # rest" by (cases "sort_key f xs") auto
  have "a \<in> set xs" using ar by (metis list.set_intros(1) set_sort)
  moreover have "\<forall>b \<in> set xs. f a \<le> f b"
  proof
    fix b assume "b \<in> set xs"
    then have "b \<in> set (a # rest)" using ar by (metis set_sort)
    with s ar show "f a \<le> f b" by auto
  qed
  ultimately show ?thesis using ar by simp
qed

subsection \<open>The hash order reaches the output only through the two iterations\<close>

lemma scan_object_slots:
  "scan_object (E\<lparr>armature_slot := f, material_slot := g\<rparr>) r ctx ob w = scan_object E r ctx ob w"
  by (simp add: scan_object_def split: obj_kind.splits)

lemma scan_slots:
  "scan_r (E\<lparr>armature_slot := f, material_slot := g\<rparr>) r ctx ob w = scan_r E r ctx ob w"
  "scan_children (E\<lparr>armature_slot := f, material_slot := g\<rparr>) r ctx obs w =
   scan_children E r ctx obs w"
proof (induction E r ctx ob w and E r ctx obs w rule: scan_r_scan_children.induct)
  case (1 E bpy_root ctx xr m k cs w)
  then show ?case by (simp add: scan_object_slots)
qed simp_all

lemma export_arm_bones_slots:
  "export_arm_bones (E\<lparr>armature_slot := f, material_slot := g\<rparr>) a r ctx bs acc =
   export_arm_bones E a r ctx bs acc"
  by (induction E a r ctx bs acc rule: export_arm_bones.induct) (simp_all add: export_bone_def)

lemma export_armatures_slots:
  "export_armatures (E\<lparr>armature_slot := f, material_slot := g\<rparr>) r ctx arms bw =
   export_armatures E r ctx arms bw"
  by (induction arms arbitrary: bw) (simp_all add: export_arm_bones_slots)

lemma surface_fields_slots:
  "surface_fields (E\<lparr>armature_slot := f, material_slot := g\<rparr>) ctx m = surface_fields E ctx m"
  by (simp add: surface_fields_def split: option.splits)

lemma surfaces_loop_slots:
  "surfaces_loop (E\<lparr>armature_slot := f, material_slot := g\<rparr>) ctx ms sfw =
   surfaces_loop E ctx ms sfw"
  by (induction ms arbitrary: sfw) (simp_all add: surface_fields_slots split: sum.splits)

lemma export_motions_slots:
  "export_motions (E\<lparr>armature_slot := f, material_slot := g\<rparr>) s some_arm ctx ob =
   export_motions E s some_arm ctx ob"
  by (simp add: export_motions_def split: option.splits)

lemma export_transform_slots:
  "export_transform (E\<lparr>armature_slot := f, material_slot := g\<rparr>) s ob = export_transform E s ob"
  by (simp add: export_transform_def transform_fields_def)

subsection \<open>The surfaces loop\<close>

lemma surfaces_loop_Inr:
  "surfaces_loop E ctx ms sfw = Inr out \<longleftrightarrow>
     (\<exists>fss. map (surface_fields E ctx) ms = map Inr fss \<and> out = sfw @ concat fss)"
proof (induction ms arbitrary: sfw)
  case Nil
  then show ?case by auto
next
  case (Cons m ms)
  show ?case
  proof (cases "surface_fields E ctx m")
    case (Inl e)
    then show ?thesis by (auto simp: map_eq_Cons_conv)
  next
    case (Inr fs)
    then show ?thesis by (auto simp: Cons.IH map_eq_Cons_conv Cons_eq_map_conv)
  qed
qed

lemma surfaces_loop_total:
  "\<forall>m \<in> set ms. getitem (texture_slots m) (active_texture_index m) \<noteq> None \<Longrightarrow>
   \<exists>out. surfaces_loop E ctx ms sfw = Inr out"
  by (induction ms arbitrary: sfw) (auto simp: surface_fields_def Let_def split: option.splits)

subsection \<open>Bones and partitions\<close>

lemma export_arm_bones_writers:
  "fst (export_arm_bones E a r ctx bs (bw, bm)) =
     bw @ map (\<lambda>b. ChunkedWriter (bone_chunks E a r b ctx)) (filter exportable bs)"
  by (induction bs arbitrary: bw bm)
     (simp_all add: is_exportable_bone_def export_bone_def)

lemma export_arm_bones_bonemap:
  "dom (snd (export_arm_bones E a r ctx bs (bw, bm))) =
     dom bm \<union> bone_name ` {b \<in> set bs. exportable b}"
  by (induction bs arbitrary: bw bm)
     (auto simp: is_exportable_bone_def export_bone_def)

lemma export_armatures_writers:
  "export_armatures E r ctx arms bw =
     bw @ concat (map (\<lambda>a. map (\<lambda>b. ChunkedWriter (bone_chunks E a r b ctx))
                              (filter exportable (bones a))) arms)"
  by (induction arms arbitrary: bw) (simp_all add: export_arm_bones_writers)

lemma exportable_pose_bones_sound:
  "exportable_pose_bones bs pbs = Some eb \<Longrightarrow>
   \<forall>pb \<in> set eb. pb \<in> set pbs \<and>
      (\<exists>b. find (\<lambda>b. bone_name b = pb_name pb) bs = Some b \<and> exportable b)"
  by (induction pbs arbitrary: eb)
     (auto simp: is_exportable_bone_def split: option.splits if_splits)

lemma non_empty_groups_names:
  "(gname, names) \<in> set (non_empty_groups arm eb) \<Longrightarrow> n \<in> set names \<Longrightarrow>
   \<exists>pb \<in> set eb. pb_name pb = n"
  by (auto simp: non_empty_groups_def)

section \<open>The claims\<close>

subsection \<open>C1: what the output depends on\<close>

text \<open>
  C1, as amended.  The output of \<^verbatim>\<open>export_main\<close> is a function of the scene, the
  configuration, the user identity, the clock and, besides these, of the order in which
  the host iterates the two sets \<^verbatim>\<open>armatures\<close> and \<^verbatim>\<open>materials\<close>: two runs whose
  hash orders enumerate both collected sets alike give the same result, and when the walk
  collects at most one armature and at most one material the result is the same under
  every hash order.
\<close>

theorem export_main_up_to_set_order:
  assumes "w = scan_r E bpy_obj ctx bpy_obj empty_walk"
  shows "(iterate f (armatures w) = iterate (armature_slot E) (armatures w) \<and>
          iterate g (materials w) = iterate (material_slot E) (materials w) \<longrightarrow>
            export_main (E\<lparr>armature_slot := f, material_slot := g\<rparr>) bpy_obj s ctx =
            export_main E bpy_obj s ctx)
    \<and> (length (armatures w) \<le> 1 \<and> length (materials w) \<le> 1 \<longrightarrow>
            export_main (E\<lparr>armature_slot := f, material_slot := g\<rparr>) bpy_obj s ctx =
            export_main E bpy_obj s ctx)"
proof -
  have main: "iterate f (armatures w) = iterate (armature_slot E) (armatures w) \<Longrightarrow>
          iterate g (materials w) = iterate (material_slot E) (materials w) \<Longrightarrow>
            export_main (E\<lparr>armature_slot := f, material_slot := g\<rparr>) bpy_obj s ctx =
            export_main E bpy_obj s ctx"
    unfolding export_main_def export_meshes_def export_surfaces_def
    by (simp add: scan_slots export_armatures_slots surfaces_loop_slots export_motions_slots
        export_transform_slots assms [symmetric] Let_def)
  show ?thesis using main by (simp add: iterate_short)
qed

text \<open>
  A mesh skinned to one armature, using one material: the export is the same under two
  different hash orders.
\<close>

theorem export_main_up_to_set_order_witness:
  "export_main (ex_env\<lparr>armature_slot := arm1_last, material_slot := red_last\<rparr>)
     ex_skinned ex_state ex_ctx =
   export_main ex_env ex_skinned ex_state ex_ctx"
proof -
  have w: "scan_r ex_env ex_skinned ex_ctx ex_skinned empty_walk =
             \<lparr>mesh_writers = [ChunkedWriter []], armatures = [arm1], materials = [red]\<rparr>"
    by (simp add: ex_defs run_defs)
  from export_main_up_to_set_order
    [where E = ex_env and bpy_obj = ex_skinned and ctx = ex_ctx and f = arm1_last
       and g = red_last and s = ex_state, OF refl]
  show ?thesis by (simp add: w)
qed

text \<open>
  C1 as stated fails.  The mesh \<open>ex_mesh\<close> uses two materials.  Scene, configuration,
  user and clock are the same in both runs; the hash order of the two materials is not,
  and the two SURFACES payloads list them in opposite orders.
\<close>

theorem export_main_set_order_counterexample:
  "export_main ex_env ex_mesh ex_state ex_ctx =
     Returned \<lparr>chunks =
       [(VERSION, PackedWriter [PutH 16]), (FLAGS, PackedWriter [PutI 1]),
        (MESHES, ChunkedWriter [(Index 0, ChunkedWriter [])]),
        (SURFACES2, PackedWriter
          [PutI 2,
           PutS ''red'', PutS [], PutS [], PutS [], PutS [], PutS ''UVMap'', PutI 0, PutI 274, PutI 1,
           PutS ''blue'', PutS [], PutS [], PutS [], PutS [], PutS [], PutI 0, PutI 274, PutI 1]),
        (REVISION, PackedWriter
          [PutS [CHR 0x5C, CHR 0x5C, CHR ''p'', CHR ''c'', CHR 0x5C, CHR ''u''],
           PutI 100, PutS [], PutI 0])],
       warnings = []\<rparr>
   \<and> export_main (ex_env\<lparr>material_slot := red_last\<rparr>) ex_mesh ex_state ex_ctx =
     Returned \<lparr>chunks =
       [(VERSION, PackedWriter [PutH 16]), (FLAGS, PackedWriter [PutI 1]),
        (MESHES, ChunkedWriter [(Index 0, ChunkedWriter [])]),
        (SURFACES2, PackedWriter
          [PutI 2,
           PutS ''blue'', PutS [], PutS [], PutS [], PutS [], PutS [], PutI 0, PutI 274, PutI 1,
           PutS ''red'', PutS [], PutS [], PutS [], PutS [], PutS ''UVMap'', PutI 0, PutI 274, PutI 1]),
        (REVISION, PackedWriter
          [PutS [CHR 0x5C, CHR 0x5C, CHR ''p'', CHR ''c'', CHR 0x5C, CHR ''u''],
           PutI 100, PutS [], PutI 0])],
       warnings = []\<rparr>"
  by (simp add: ex_defs run_defs)

subsection \<open>C2: a material without an active texture\<close>

text \<open>
  C2, as amended.  For a material that has no active texture, the SURFACES entry holds
  the empty string in the texture-name field; the UV-layer field that follows holds the
  UV layer of the slot at the active texture index, and the empty string when that slot
  is empty.
\<close>

theorem surface_without_active_texture:
  "active_texture m = None \<Longrightarrow>
   getitem (texture_slots m) (active_texture_index m) = Some slot \<Longrightarrow>
   surface_fields E ctx m =
     Inr (PutS (mat_name m) #
          (case mat_xray m of
             Some x \<Rightarrow> [PutS (eshader x), PutS (cshader x), PutS (gamemtl x)]
           | None \<Rightarrow> [PutS [], PutS [], PutS []]) @
          [PutS [],
           PutS (case slot of Some sl \<Rightarrow> uv_layer sl | None \<Rightarrow> []),
           PutI (case mat_xray m of Some x \<Rightarrow> mat_flags x | None \<Rightarrow> 0),
           PutI 0x112, PutI 1])"
  by (simp add: surface_fields_def)

theorem surface_without_active_texture_witness:
  "surface_fields ex_env ex_ctx blue =
     Inr [PutS ''blue'', PutS [], PutS [], PutS [], PutS [], PutS [], PutI 0, PutI 0x112, PutI 1]"
  using surface_without_active_texture [of blue None ex_env ex_ctx]
  by (simp add: blue_def getitem_def)

text \<open>
  C2 as stated fails: \<open>red\<close> has no active texture, and its entry carries the UV layer
  of its active slot.
\<close>

theorem surface_uv_layer_counterexample:
  "active_texture red = None \<and>
   surface_fields ex_env ex_ctx red =
     Inr [PutS ''red'', PutS [], PutS [], PutS [], PutS [], PutS ''UVMap'',
          PutI 0, PutI 0x112, PutI 1]"
  by (simp add: ex_defs surface_fields_def getitem_def)

subsection \<open>C3: the armature of the skeleton-wide sections\<close>

text \<open>
  C3, as amended.  The armature handed to the MOTIONS and PARTITIONS sections is the
  element of the collected armature set that the set's iteration yields first: there is
  none exactly when the walk collects none; otherwise it is a collected armature whose
  hash slot is least.  It is the first armature the walk encountered when the hash order
  agrees with the order of the walk, and in particular when only one was collected.
\<close>

theorem some_arm_least_slot:
  assumes "export_meshes E s bpy_obj ctx = ((mats, bone_writers, some_arm, bpy_root), s')"
    and "arms = armatures (scan_r E bpy_obj ctx bpy_obj empty_walk)"
  shows "(some_arm = None \<longleftrightarrow> arms = [])
    \<and> (\<forall>a. some_arm = Some a \<longrightarrow>
          a \<in> set arms \<and> (\<forall>b \<in> set arms. armature_slot E a \<le> armature_slot E b))
    \<and> (arms \<noteq> [] \<and> sorted (map (armature_slot E) arms) \<longrightarrow>
          some_arm = Some (hd (concat (map encountered_armatures (visited E bpy_obj)))))
    \<and> (\<forall>a. arms = [a] \<longrightarrow> some_arm = Some a)"
proof -
  from assms have sa:
    "some_arm = (case sort_key (armature_slot E) arms of [] \<Rightarrow> None | a # _ \<Rightarrow> Some a)"
    by (auto simp: export_meshes_def Let_def iterate_def)
  have 1: "some_arm = None \<longleftrightarrow> arms = []"
    by (cases "sort_key (armature_slot E) arms")
       (auto simp: sa dest: arg_cong [where f = length])
  have 2: "\<forall>a. some_arm = Some a \<longrightarrow>
          a \<in> set arms \<and> (\<forall>b \<in> set arms. armature_slot E a \<le> armature_slot E b)"
  proof (intro allI impI)
    fix a assume "some_arm = Some a"
    then have ne: "arms \<noteq> []" and h: "hd (sort_key (armature_slot E) arms) = a"
      using 1 by (auto simp: sa split: list.splits)
    from hd_sort_key_min [OF ne, of "armature_slot E"] h
    show "a \<in> set arms \<and> (\<forall>b \<in> set arms. armature_slot E a \<le> armature_slot E b)" by simp
  qed
  have 3: "arms \<noteq> [] \<and> sorted (map (armature_slot E) arms) \<longrightarrow>
          some_arm = Some (hd (concat (map encountered_armatures (visited E bpy_obj))))"
  proof
    assume a: "arms \<noteq> [] \<and> sorted (map (armature_slot E) arms)"
    then have "sort_key (armature_slot E) arms = arms" by (simp add: sort_key_id_if_sorted)
    then have "some_arm = Some (hd arms)" using a by (cases arms) (auto simp: sa)
    moreover have "arms = fold set_add (concat (map encountered_armatures (visited E bpy_obj))) []"
      by (simp add: assms(2) armatures_scan(1) walk_empty)
    moreover have "concat (map encountered_armatures (visited E bpy_obj)) \<noteq> []"
      using a calculation(2) fold_set_add_Nil by blast
    ultimately show "some_arm = Some (hd (concat (map encountered_armatures (visited E bpy_obj))))"
      using hd_fold_set_add by metis
  qed
  have 4: "\<forall>a. arms = [a] \<longrightarrow> some_arm = Some a"
    by (auto simp: sa)
  from 1 2 3 4 show ?thesis by blast
qed

text \<open>
  With a hash order that agrees with the walk, the first armature encountered is used.
\<close>

theorem some_arm_least_slot_witness:
  "export_meshes ex_env ex_state ex_two_arms ex_ctx =
     (([], [ChunkedWriter [(Index 0, PackedWriter [PutS ''root''])]], Some arm1, ex_two_arms),
      \<lparr>chunks = [(MESHES, ChunkedWriter [])], warnings = []\<rparr>)
   \<and> Some arm1 = Some (hd (concat (map encountered_armatures (visited ex_env ex_two_arms))))
   \<and> arm1 \<in> set [arm1, arm2]"
proof -
  have e: "export_meshes ex_env ex_state ex_two_arms ex_ctx =
     (([], [ChunkedWriter [(Index 0, PackedWriter [PutS ''root''])]], Some arm1, ex_two_arms),
      \<lparr>chunks = [(MESHES, ChunkedWriter [])], warnings = []\<rparr>)"
    by (simp add: ex_defs run_defs)
  have a: "armatures (scan_r ex_env ex_two_arms ex_ctx ex_two_arms empty_walk) = [arm1, arm2]"
    by (simp add: ex_defs run_defs)
  have srt: "sorted (map (armature_slot ex_env) [arm1, arm2])"
    by (simp add: ex_env_def)
  from some_arm_least_slot [OF e a [symmetric]] srt e show ?thesis by simp
qed

text \<open>
  C3 as stated fails.  The walk over \<open>ex_two_arms\<close> encounters \<open>arm1\<close>, then
  \<open>arm2\<close>; under a hash order that places \<open>arm1\<close> last, \<open>arm2\<close> is the armature
  used, and the export has no PARTITIONS chunk although \<open>arm1\<close> has a bone group.
\<close>

theorem some_arm_counterexample:
  "concat (map encountered_armatures (visited (ex_env\<lparr>armature_slot := arm1_last\<rparr>) ex_two_arms))
     = [arm1, arm2]
   \<and> fst (snd (snd (fst (export_meshes (ex_env\<lparr>armature_slot := arm1_last\<rparr>) ex_state
                           ex_two_arms ex_ctx)))) = Some arm2
   \<and> export_main (ex_env\<lparr>armature_slot := arm1_last\<rparr>) ex_two_arms ex_state ex_ctx =
     Returned \<lparr>chunks =
       [(VERSION, PackedWriter [PutH 16]), (FLAGS, PackedWriter [PutI 1]),
        (MESHES, ChunkedWriter []), (SURFACES2, PackedWriter [PutI 0]),
        (BONES1, ChunkedWriter
          [(Index 0, ChunkedWriter [(Index 0, PackedWriter [PutS ''root''])])]),
        (REVISION, PackedWriter
          [PutS [CHR 0x5C, CHR 0x5C, CHR ''p'', CHR ''c'', CHR 0x5C, CHR ''u''],
           PutI 100, PutS [], PutI 0])],
       warnings = []\<rparr>"
  by (simp add: ex_defs run_defs encountered_armatures_def)

subsection \<open>C4: the revision record\<close>

text \<open>
  C4, as amended.  \<^verbatim>\<open>export_revision\<close> implements the two-case transition: if the
  stored owner is empty or equals the current user, it writes (current user, stored ctime
  if non-zero else current time, empty string, 0); otherwise it writes (stored owner,
  stored ctime, current user, current time).  It stores nothing back, so a second export
  by the same user reads the same stored revision: the owner field is the same, and the
  ctime field is the stored ctime in both exports when that is non-zero or the object
  belongs to another user; when the stored ctime is zero and the owner is empty or the
  current user, each export writes its own current time.
\<close>

theorem export_revision_transition:
  "export_revision h s (Some x) =
     Returned (put REVISION (PackedWriter
       (if owner (revision x) = [] \<or> owner (revision x) = curruser h
        then [PutS (curruser h),
              PutI (if ctime (revision x) \<noteq> 0 then ctime (revision x) else time_now h),
              PutS [], PutI 0]
        else [PutS (owner (revision x)), PutI (ctime (revision x)),
              PutS (curruser h), PutI (time_now h)])) s)
   \<and> (curruser h' = curruser h \<longrightarrow>
        revision_fields h' (revision x) ! 0 = revision_fields h (revision x) ! 0
        \<and> (ctime (revision x) \<noteq> 0 \<or> (owner (revision x) \<noteq> [] \<and> owner (revision x) \<noteq> curruser h)
             \<longrightarrow> revision_fields h (revision x) ! 1 = PutI (ctime (revision x))
               \<and> revision_fields h' (revision x) ! 1 = PutI (ctime (revision x)))
        \<and> (ctime (revision x) = 0 \<and> (owner (revision x) = [] \<or> owner (revision x) = curruser h)
             \<longrightarrow> revision_fields h (revision x) ! 1 = PutI (time_now h)
               \<and> revision_fields h' (revision x) ! 1 = PutI (time_now h')))"
  by (simp add: export_revision_def revision_fields_def)

theorem export_revision_transition_witness:
  "export_revision ex_platform ex_state (Some (ex_xray\<lparr>revision := \<lparr>owner = [], ctime = 50\<rparr>\<rparr>)) =
     Returned \<lparr>chunks = [(REVISION, PackedWriter
        [PutS [CHR 0x5C, CHR 0x5C, CHR ''p'', CHR ''c'', CHR 0x5C, CHR ''u''],
         PutI 50, PutS [], PutI 0])],
       warnings = []\<rparr>
   \<and> revision_fields (ex_platform\<lparr>time_now := 200\<rparr>) \<lparr>owner = [], ctime = 50\<rparr> ! 1 = PutI 50"
  using export_revision_transition
    [of ex_platform ex_state "ex_xray\<lparr>revision := \<lparr>owner = [], ctime = 50\<rparr>\<rparr>"
        "ex_platform\<lparr>time_now := 200\<rparr>"]
  by (simp add: ex_defs put_def curruser_def)

text \<open>
  C4 as stated fails in its last part.  The object was never exported (empty owner, ctime
  0); the same user exports it at time 100 and again at time 200.  The second export
  writes ctime 200, not 100.
\<close>

theorem export_revision_ctime_counterexample:
  "export_revision ex_platform ex_state (Some ex_xray) =
     Returned \<lparr>chunks = [(REVISION, PackedWriter
        [PutS [CHR 0x5C, CHR 0x5C, CHR ''p'', CHR ''c'', CHR 0x5C, CHR ''u''],
         PutI 100, PutS [], PutI 0])],
       warnings = []\<rparr>
   \<and> export_revision (ex_platform\<lparr>time_now := 200\<rparr>) ex_state (Some ex_xray) =
     Returned \<lparr>chunks = [(REVISION, PackedWriter
        [PutS [CHR 0x5C, CHR 0x5C, CHR ''p'', CHR ''c'', CHR 0x5C, CHR ''u''],
         PutI 200, PutS [], PutI 0])],
       warnings = []\<rparr>"
  by (simp add: ex_defs export_revision_def revision_fields_def put_def curruser_def)

subsection \<open>C5: the export of an object without meshes and armatures\<close>

text \<open>
  C5.  For an object with no meshes, no armature, empty user data, no LOD reference, no
  motion references, identity world transform and a revision that was never set,
  \<^verbatim>\<open>export_main\<close> returns, and has appended exactly the chunks VERSION, FLAGS, MESHES
  (an empty nested container), SURFACES (count 0) and REVISION, in that order.
\<close>

theorem export_main_static_object:
  assumes "xray bpy_obj = Some x" "userdata x = []" "lodref x = []"
    "motionrefs_collection x = []" "motionrefs x = []"
    "matrix_world bpy_obj = Identity4" "revision x = \<lparr>owner = [], ctime = 0\<rparr>"
    "static_object E bpy_obj"
  shows "export_main E bpy_obj s ctx =
     Returned (s\<lparr>chunks := chunks s @
       [(VERSION, PackedWriter [PutH 0x10]),
        (FLAGS, PackedWriter [PutI (flags x)]),
        (MESHES, ChunkedWriter []),
        (SURFACES2, PackedWriter [PutI 0]),
        (REVISION, PackedWriter [PutS (curruser (platform E)), PutI (time_now (platform E)),
                                 PutS [], PutI 0])]\<rparr>)"
  using assms
  by (simp add: export_main_def export_meshes_def scan_static walk_empty iterate_def
      matrix_ne_Identity4_Identity4
      export_version_def export_flags_def export_surfaces_def export_bones_def
      export_user_data_def export_loddef_def export_motions_def export_partitions_def
      export_motion_refs_def export_transform_def export_revision_def revision_fields_def
      and_then_def put_def indexed_def enumerate_eq_zip)

theorem export_main_static_object_witness:
  "export_main ex_env ex_empty ex_state ex_ctx =
     Returned \<lparr>chunks =
       [(VERSION, PackedWriter [PutH 0x10]),
        (FLAGS, PackedWriter [PutI 1]),
        (MESHES, ChunkedWriter []),
        (SURFACES2, PackedWriter [PutI 0]),
        (REVISION, PackedWriter
          [PutS [CHR 0x5C, CHR 0x5C, CHR ''p'', CHR ''c'', CHR 0x5C, CHR ''u''],
           PutI 100, PutS [], PutI 0])],
       warnings = []\<rparr>"
  using export_main_static_object [of ex_empty ex_xray ex_env ex_state ex_ctx]
  by (simp add: ex_defs curruser_def)

subsection \<open>C6: motion references given twice\<close>

text \<open>
  C6.  When the motion-reference collection is non-empty and the legacy string is set as
  well, \<^verbatim>\<open>export_motion_refs\<close> logs exactly one warning and emits the collection: with
  \<^verbatim>\<open>soc_sgroups\<close> one comma-joined string under MOTION\_REFS, without it a count
  followed by the names under SMOTIONS3.
\<close>

theorem export_motion_refs_both:
  "motionrefs_collection x \<noteq> [] \<Longrightarrow> motionrefs x \<noteq> [] \<Longrightarrow>
   export_motion_refs s (Some x) ctx =
     Returned \<lparr>chunks = chunks s @
        [if soc_sgroups ctx
         then (MOTION_REFS, PackedWriter [PutS (join '','' (motionrefs_collection x))])
         else (SMOTIONS3, PackedWriter (PutI (int (length (motionrefs_collection x))) #
                                        map PutS (motionrefs_collection x)))],
       warnings = warnings s @ [(''MotionRefs: skipped legacy data'', motionrefs x)]\<rparr>"
  by (simp add: export_motion_refs_def put_def warn_def Let_def)

theorem export_motion_refs_both_witness:
  "export_motion_refs ex_state
     (Some (ex_xray\<lparr>motionrefs_collection := [''a'', ''b''], motionrefs := ''old''\<rparr>)) ex_ctx =
     Returned \<lparr>chunks = [(SMOTIONS3, PackedWriter [PutI 2, PutS ''a'', PutS ''b''])],
               warnings = [(''MotionRefs: skipped legacy data'', ''old'')]\<rparr>
   \<and> export_motion_refs ex_state
     (Some (ex_xray\<lparr>motionrefs_collection := [''a'', ''b''], motionrefs := ''old''\<rparr>))
     (ex_ctx\<lparr>soc_sgroups := True\<rparr>) =
     Returned \<lparr>chunks = [(MOTION_REFS, PackedWriter [PutS ''a,b''])],
               warnings = [(''MotionRefs: skipped legacy data'', ''old'')]\<rparr>"
  using export_motion_refs_both
    [of "ex_xray\<lparr>motionrefs_collection := [''a'', ''b''], motionrefs := ''old''\<rparr>" ex_state ex_ctx]
    export_motion_refs_both
    [of "ex_xray\<lparr>motionrefs_collection := [''a'', ''b''], motionrefs := ''old''\<rparr>" ex_state
        "ex_ctx\<lparr>soc_sgroups := True\<rparr>"]
  by (simp add: ex_defs)

subsection \<open>C7: bones that are not exportable\<close>

text \<open>
  C7.  A bone whose exportable flag is false is never encoded for the BONES chunk, never
  entered into the bone map and never listed in a PARTITIONS group, whatever bone group
  its pose bone belongs to: the bone writers are the encodings of the exportable bones of
  the collected armatures; the keys of an armature's bone map are the names of its
  exportable bones; and every name in a written group is the name of a bone that
  \<^verbatim>\<open>data.bones\<close> finds exportable.
\<close>

theorem non_exportable_bones_invisible:
  assumes "export_meshes E s bpy_obj ctx = ((mats, bone_writers, some_arm, bpy_root), s')"
  shows "bone_writers =
       concat (map (\<lambda>a. map (\<lambda>b. ChunkedWriter (bone_chunks E a bpy_obj b ctx))
                             (filter exportable (bones a)))
                   (iterate (armature_slot E) (armatures (scan_r E bpy_obj ctx bpy_obj empty_walk))))
    \<and> dom (snd (export_arm_bones E arm bpy_obj ctx (bones arm) (bw, Map.empty))) =
        bone_name ` {b \<in> set (bones arm). exportable b}
    \<and> (\<forall>eb. exportable_pose_bones (bones arm) (pose_bones arm) = Some eb \<longrightarrow>
          export_partitions s0 (Some arm) =
            (if bone_groups arm = [] \<or> non_empty_groups arm eb = [] then Returned s0
             else Returned (put PARTITIONS1
                    (PackedWriter (partition_fields (non_empty_groups arm eb))) s0))
          \<and> (\<forall>g \<in> set (non_empty_groups arm eb). \<forall>n \<in> set (snd g).
                \<exists>b. find (\<lambda>b. bone_name b = n) (bones arm) = Some b \<and> exportable b))"
proof -
  from assms have bw: "bone_writers = export_armatures E bpy_obj ctx
      (iterate (armature_slot E) (armatures (scan_r E bpy_obj ctx bpy_obj empty_walk))) []"
    by (auto simp: export_meshes_def Let_def)
  have 1: "bone_writers =
       concat (map (\<lambda>a. map (\<lambda>b. ChunkedWriter (bone_chunks E a bpy_obj b ctx))
                             (filter exportable (bones a)))
                   (iterate (armature_slot E) (armatures (scan_r E bpy_obj ctx bpy_obj empty_walk))))"
    by (simp add: bw export_armatures_writers)
  have 2: "dom (snd (export_arm_bones E arm bpy_obj ctx (bones arm) (bw, Map.empty))) =
        bone_name ` {b \<in> set (bones arm). exportable b}"
    by (simp add: export_arm_bones_bonemap)
  have 3: "\<forall>eb. exportable_pose_bones (bones arm) (pose_bones arm) = Some eb \<longrightarrow>
          export_partitions s0 (Some arm) =
            (if bone_groups arm = [] \<or> non_empty_groups arm eb = [] then Returned s0
             else Returned (put PARTITIONS1
                    (PackedWriter (partition_fields (non_empty_groups arm eb))) s0))
          \<and> (\<forall>g \<in> set (non_empty_groups arm eb). \<forall>n \<in> set (snd g).
                \<exists>b. find (\<lambda>b. bone_name b = n) (bones arm) = Some b \<and> exportable b)"
  proof (intro allI impI conjI ballI)
    fix eb assume eb: "exportable_pose_bones (bones arm) (pose_bones arm) = Some eb"
    show "export_partitions s0 (Some arm) =
            (if bone_groups arm = [] \<or> non_empty_groups arm eb = [] then Returned s0
             else Returned (put PARTITIONS1
                    (PackedWriter (partition_fields (non_empty_groups arm eb))) s0))"
      by (simp add: export_partitions_def eb)
    fix g n assume g: "g \<in> set (non_empty_groups arm eb)" and n: "n \<in> set (snd g)"
    then obtain pb where "pb \<in> set eb" "pb_name pb = n"
      using non_empty_groups_names [of "fst g" "snd g" arm eb n] by auto
    with exportable_pose_bones_sound [OF eb]
    show "\<exists>b. find (\<lambda>b. bone_name b = n) (bones arm) = Some b \<and> exportable b" by auto
  qed
  from 1 2 3 show ?thesis by blast
qed

text \<open>
  The bone \<open>ik\<close> of \<open>arm1\<close> is not exportable and sits in the group \<open>body\<close>: only
  \<open>root\<close> is encoded, mapped and listed.
\<close>

theorem non_exportable_bones_invisible_witness:
  "export_meshes ex_env ex_state ex_two_arms ex_ctx =
     (([], [ChunkedWriter [(Index 0, PackedWriter [PutS ''root''])]], Some arm1, ex_two_arms),
      \<lparr>chunks = [(MESHES, ChunkedWriter [])], warnings = []\<rparr>)
   \<and> dom (snd (export_arm_bones ex_env arm1 ex_two_arms ex_ctx (bones arm1) ([], Map.empty))) =
       {''root''}
   \<and> export_partitions ex_state (Some arm1) =
       Returned \<lparr>chunks = [(PARTITIONS1,
                   PackedWriter [PutI 1, PutS ''body'', PutI 1, PutS ''root''])],
                 warnings = []\<rparr>"
proof -
  have e: "export_meshes ex_env ex_state ex_two_arms ex_ctx =
     (([], [ChunkedWriter [(Index 0, PackedWriter [PutS ''root''])]], Some arm1, ex_two_arms),
      \<lparr>chunks = [(MESHES, ChunkedWriter [])], warnings = []\<rparr>)"
    by (simp add: ex_defs run_defs)
  have eb: "exportable_pose_bones (bones arm1) (pose_bones arm1) =
              Some [\<lparr>pb_name = ''root'', pb_bone_group = Some \<lparr>group_name = ''body''\<rparr>\<rparr>]"
    by (simp add: arm1_def is_exportable_bone_def)
  have ne: "non_empty_groups arm1
              [\<lparr>pb_name = ''root'', pb_bone_group = Some \<lparr>group_name = ''body''\<rparr>\<rparr>] =
            [(''body'', [''root''])]"
    by (simp add: arm1_def non_empty_groups_def)
  have f: "filter exportable (bones arm1) = [\<lparr>bone_name = ''root'', exportable = True\<rparr>]"
    by (simp add: arm1_def)
  have "{b \<in> set (bones arm1). exportable b} = set (filter exportable (bones arm1))"
    by auto
  then have d: "bone_name ` {b \<in> set (bones arm1). exportable b} = {''root''}"
    by (simp add: f)
  from non_exportable_bones_invisible [OF e, of arm1 "[]" ex_state] eb ne d e
  show ?thesis
    by (simp add: partition_fields_def put_def ex_state_def arm1_def)
qed

subsection \<open>C8: the transform chunk\<close>

text \<open>
  C8, as amended.  \<^verbatim>\<open>export_transform\<close> appends a TRANSFORM chunk if and only if the
  comparison of \<^verbatim>\<open>mathutils\<close> reports the root's world matrix different from the 4x4
  identity, that is, if and only if some entry is more than one 32-bit float step away
  from the identity's entry.  A matrix for which the chunk is written differs from the
  identity, and for the identity itself none is written.  The payload of the chunk is the
  translation (x, y, z) written as x, z, y, followed by the YXZ Euler angles written with
  the same swap, six float fields in all.
\<close>

theorem export_transform_chunk:
  "to_translation (matrix_world bpy_root) = (tx, ty, tz) \<Longrightarrow>
   to_euler_YXZ E (matrix_world bpy_root) = (ex, ey, ez) \<Longrightarrow>
   export_transform E s bpy_root =
     (if matrix_ne_Identity4 (matrix_world bpy_root)
      then put TRANSFORM (PackedWriter [PutF tx, PutF tz, PutF ty, PutF ex, PutF ez, PutF ey]) s
      else s)
   \<and> (TRANSFORM \<notin> fst ` set (chunks s) \<longrightarrow>
       (TRANSFORM \<in> fst ` set (chunks (export_transform E s bpy_root))
          \<longleftrightarrow> matrix_ne_Identity4 (matrix_world bpy_root)))
   \<and> (matrix_ne_Identity4 (matrix_world bpy_root) \<longrightarrow> matrix_world bpy_root \<noteq> Identity4)
   \<and> \<not> matrix_ne_Identity4 Identity4"
proof -
  assume t: "to_translation (matrix_world bpy_root) = (tx, ty, tz)"
    and e: "to_euler_YXZ E (matrix_world bpy_root) = (ex, ey, ez)"
  have 1: "export_transform E s bpy_root =
     (if matrix_ne_Identity4 (matrix_world bpy_root)
      then put TRANSFORM (PackedWriter [PutF tx, PutF tz, PutF ty, PutF ex, PutF ez, PutF ey]) s
      else s)"
    by (simp add: export_transform_def transform_fields_def pw_v3f_def t e)
  have 2: "TRANSFORM \<notin> fst ` set (chunks s) \<longrightarrow>
       (TRANSFORM \<in> fst ` set (chunks (export_transform E s bpy_root))
          \<longleftrightarrow> matrix_ne_Identity4 (matrix_world bpy_root))"
    by (auto simp: 1 put_def)
  have 3: "matrix_ne_Identity4 (matrix_world bpy_root) \<longrightarrow> matrix_world bpy_root \<noteq> Identity4"
    using matrix_ne_Identity4_differs by blast
  from 1 2 3 matrix_ne_Identity4_Identity4 show ?thesis by blast
qed

text \<open>
  A root moved to (5, 6, 7) gets the chunk, with the swap; a root at the identity gets
  none.
\<close>

theorem export_transform_chunk_witness:
  "export_transform (ex_env\<lparr>to_euler_YXZ := (\<lambda>_. (1, 2, 3))\<rparr>) ex_state ex_moved =
     \<lparr>chunks = [(TRANSFORM, PackedWriter [PutF 5, PutF 7, PutF 6, PutF 1, PutF 3, PutF 2])],
      warnings = []\<rparr>
   \<and> export_transform ex_env ex_state ex_no_xray = ex_state"
  using export_transform_chunk
    [of ex_moved 5 6 7 "ex_env\<lparr>to_euler_YXZ := (\<lambda>_. (1, 2, 3))\<rparr>" 1 2 3 ex_state]
    export_transform_chunk [of ex_no_xray 0 0 0 ex_env 0 0 0 ex_state]
  by (simp add: ex_defs put_def Identity4_def within_step_of_1_def within_step_of_0_def)

text \<open>
  C8 as stated fails.  The world matrix of \<open>ex_one_step\<close> differs from the identity,
  in its first entry, by one 32-bit float step; the comparison takes the two matrices as
  equal and no TRANSFORM chunk is written.
\<close>

theorem export_transform_one_step_counterexample:
  "matrix_world ex_one_step \<noteq> Identity4
   \<and> export_transform ex_env ex_state ex_one_step = ex_state"
  by (simp add: ex_one_step_def Identity4_def export_transform_def
      within_step_of_1_def within_step_of_0_def)

subsection \<open>C9: the materials of the SURFACES chunk\<close>

text \<open>
  C9.  The material set handed to \<^verbatim>\<open>export_surfaces\<close> holds exactly the materials,
  each once, that sit in a material slot of a visited mesh and whose name is among the
  material names that mesh uses.  When \<^verbatim>\<open>export_surfaces\<close> returns, the count at the
  start of SURFACES is the size of that set and the entries are those of its elements;
  it returns whenever every active texture index is within its slots.  A material that
  no visited mesh uses is not emitted.
\<close>

theorem surfaces_material_set:
  assumes "export_meshes E s bpy_obj ctx = ((mats, bone_writers, some_arm, bpy_root), s')"
  shows "set mats = {m. \<exists>v \<in> set (visited E bpy_obj). used_material E bpy_obj ctx v m}
    \<and> distinct mats
    \<and> (\<forall>s''. export_surfaces E s' ctx mats = Returned s'' \<longrightarrow>
          (\<exists>fss. map (surface_fields E ctx) (iterate (material_slot E) mats) = map Inr fss \<and>
             s'' = put SURFACES2 (PackedWriter
                     (PutI (int (card {m. \<exists>v \<in> set (visited E bpy_obj).
                                            used_material E bpy_obj ctx v m}))
                        # concat fss)) s'))
    \<and> ((\<forall>m \<in> set mats. getitem (texture_slots m) (active_texture_index m) \<noteq> None) \<longrightarrow>
          (\<exists>s''. export_surfaces E s' ctx mats = Returned s''))
    \<and> (\<forall>m. (\<forall>v \<in> set (visited E bpy_obj). \<not> used_material E bpy_obj ctx v m) \<longrightarrow>
          m \<notin> set (iterate (material_slot E) mats))"
proof -
  let ?S = "{m. \<exists>v \<in> set (visited E bpy_obj). used_material E bpy_obj ctx v m}"
  from assms have mats: "mats = materials (scan_r E bpy_obj ctx bpy_obj empty_walk)"
    by (auto simp: export_meshes_def Let_def)
  have S: "set mats = ?S"
    by (simp add: mats materials_scan(1) walk_empty)
  have d: "distinct mats"
    by (simp add: mats distinct_materials_scan(1) walk_empty)
  have len: "length mats = card ?S"
    using S d distinct_card by fastforce
  have ret: "\<forall>s''. export_surfaces E s' ctx mats = Returned s'' \<longrightarrow>
          (\<exists>fss. map (surface_fields E ctx) (iterate (material_slot E) mats) = map Inr fss \<and>
             s'' = put SURFACES2 (PackedWriter (PutI (int (card ?S)) # concat fss)) s')"
    by (auto simp: export_surfaces_def len surfaces_loop_Inr split: sum.splits)
  have tot: "(\<forall>m \<in> set mats. getitem (texture_slots m) (active_texture_index m) \<noteq> None) \<longrightarrow>
          (\<exists>s''. export_surfaces E s' ctx mats = Returned s'')"
  proof
    assume "\<forall>m \<in> set mats. getitem (texture_slots m) (active_texture_index m) \<noteq> None"
    then have "\<forall>m \<in> set (iterate (material_slot E) mats).
        getitem (texture_slots m) (active_texture_index m) \<noteq> None"
      by (simp add: set_iterate)
    from surfaces_loop_total [OF this]
    obtain out where
      "surfaces_loop E ctx (iterate (material_slot E) mats) [PutI (int (length mats))] = Inr out"
      by blast
    then show "\<exists>s''. export_surfaces E s' ctx mats = Returned s''"
      by (simp add: export_surfaces_def)
  qed
  have unused: "\<forall>m. (\<forall>v \<in> set (visited E bpy_obj). \<not> used_material E bpy_obj ctx v m) \<longrightarrow>
          m \<notin> set (iterate (material_slot E) mats)"
    using S by (auto simp: set_iterate)
  from S d ret tot unused show ?thesis by blast
qed

text \<open>
  The mesh \<open>ex_mesh\<close> has \<open>red\<close>, an empty slot, \<open>blue\<close> and \<open>green\<close> in its
  slots and uses the names of the first two: the set is \<open>red\<close> and \<open>blue\<close>, the
  count is 2.
\<close>

theorem surfaces_material_set_witness:
  "set [red, blue] =
     {m. \<exists>v \<in> set (visited ex_env ex_mesh). used_material ex_env ex_mesh ex_ctx v m}
   \<and> card {m. \<exists>v \<in> set (visited ex_env ex_mesh). used_material ex_env ex_mesh ex_ctx v m} = 2
   \<and> green \<notin> set (iterate (material_slot ex_env) [red, blue])
   \<and> (\<exists>fss. export_surfaces ex_env
               \<lparr>chunks = [(MESHES, ChunkedWriter [(Index 0, ChunkedWriter [])])], warnings = []\<rparr>
               ex_ctx [red, blue] =
             Returned \<lparr>chunks = [(MESHES, ChunkedWriter [(Index 0, ChunkedWriter [])]),
                                  (SURFACES2, PackedWriter (PutI 2 # concat fss))],
                       warnings = []\<rparr>)"
proof -
  let ?s1 = "\<lparr>chunks = [(MESHES, ChunkedWriter [(Index 0, ChunkedWriter [])])], warnings = []\<rparr>"
  let ?S = "{m. \<exists>v \<in> set (visited ex_env ex_mesh). used_material ex_env ex_mesh ex_ctx v m}"
  have e: "export_meshes ex_env ex_state ex_mesh ex_ctx = (([red, blue], [], None, ex_mesh), ?s1)"
    by (simp add: ex_defs run_defs)
  note T = surfaces_material_set [OF e]
  have S: "set [red, blue] = ?S" using T by blast
  have c: "card ?S = 2" unfolding S [symmetric] by (simp add: red_def blue_def)
  have g: "green \<notin> set (iterate (material_slot ex_env) [red, blue])"
    by (simp add: set_iterate red_def blue_def green_def)
  have ok: "\<forall>m \<in> set [red, blue]. getitem (texture_slots m) (active_texture_index m) \<noteq> None"
    by (simp add: red_def blue_def getitem_def)
  with T obtain s'' where r: "export_surfaces ex_env ?s1 ex_ctx [red, blue] = Returned s''"
    by blast
  with T obtain fss where
    "s'' = put SURFACES2 (PackedWriter (PutI (int (card ?S)) # concat fss)) ?s1"
    by blast
  with r c have "export_surfaces ex_env ?s1 ex_ctx [red, blue] =
             Returned \<lparr>chunks = [(MESHES, ChunkedWriter [(Index 0, ChunkedWriter [])]),
                                  (SURFACES2, PackedWriter (PutI 2 # concat fss))],
                       warnings = []\<rparr>"
    by (simp add: put_def)
  with S c g show ?thesis by blast
qed

subsection \<open>C10: the export of an object without the xray property group\<close>

text \<open>
  C10.  For a root object without the \<^verbatim>\<open>xray\<close> attribute, \<^verbatim>\<open>export_main\<close> passes
  \<^verbatim>\<open>None\<close>; \<^verbatim>\<open>export_flags\<close> writes the flag value 0; the export never returns.
  Unless \<^verbatim>\<open>export_surfaces\<close> has raised already (an active texture index outside the
  slots), \<^verbatim>\<open>export_user_data\<close> raises the attribute error, after the VERSION, FLAGS,
  MESHES, SURFACES and BONES sections and before any later section is written.
\<close>

theorem export_main_without_xray:
  assumes "xray bpy_obj = None"
    and "export_meshes E (export_flags (export_version s) None) bpy_obj ctx =
           ((mats, bone_writers, some_arm, bpy_root), s3)"
  shows "take 2 (drop (length (chunks s)) (chunks s3)) =
           [(VERSION, PackedWriter [PutH 0x10]), (FLAGS, PackedWriter [PutI 0])]
    \<and> export_main E bpy_obj s ctx =
        (case export_surfaces E s3 ctx mats of
           Raised e s' \<Rightarrow> Raised e s'
         | Returned s4 \<Rightarrow> Raised AttributeError (export_bones s4 bone_writers))
    \<and> (\<forall>s4. export_user_data s4 None = Raised AttributeError s4)
    \<and> (\<forall>s'. export_main E bpy_obj s ctx \<noteq> Returned s')"
proof -
  have a: "take 2 (drop (length (chunks s)) (chunks s3)) =
           [(VERSION, PackedWriter [PutH 0x10]), (FLAGS, PackedWriter [PutI 0])]"
    using assms(2)
    by (auto simp: export_meshes_def Let_def export_flags_def export_version_def put_def)
  have b: "export_main E bpy_obj s ctx =
        (case export_surfaces E s3 ctx mats of
           Raised e s' \<Rightarrow> Raised e s'
         | Returned s4 \<Rightarrow> Raised AttributeError (export_bones s4 bone_writers))"
    using assms
    by (simp add: export_main_def and_then_def export_user_data_def split: result.splits)
  have c: "\<forall>s'. export_main E bpy_obj s ctx \<noteq> Returned s'"
    by (simp add: b split: result.splits)
  have d: "\<forall>s4. export_user_data s4 None = Raised AttributeError s4"
    by (simp add: export_user_data_def)
  from a b c d show ?thesis by blast
qed

theorem export_main_without_xray_witness:
  "export_main ex_env ex_no_xray ex_state ex_ctx =
     Raised AttributeError \<lparr>chunks =
       [(VERSION, PackedWriter [PutH 0x10]),
        (FLAGS, PackedWriter [PutI 0]),
        (MESHES, ChunkedWriter []),
        (SURFACES2, PackedWriter [PutI 0])],
       warnings = []\<rparr>"
proof -
  have e: "export_meshes ex_env (export_flags (export_version ex_state) None) ex_no_xray ex_ctx =
           (([], [], None, ex_no_xray),
            \<lparr>chunks = [(VERSION, PackedWriter [PutH 0x10]), (FLAGS, PackedWriter [PutI 0]),
                        (MESHES, ChunkedWriter [])], warnings = []\<rparr>)"
    by (simp add: ex_defs run_defs)
  have x: "xray ex_no_xray = None" by (simp add: ex_no_xray_def)
  from export_main_without_xray [OF x e] show ?thesis
    by (simp add: ex_defs export_surfaces_def export_bones_def iterate_def put_def)
qed

end
